theory Spec2Isabelle
  imports Main "HOL-Library.Word" "HOL-Library.AList"
begin

unbundle bit_operations_syntax

section \<open>Runtime values: strings, numbers and byte buffers\<close>

text \<open>
  The webhook receiver is the pair \<open>handleWebhook\<close> (controller) and
  \<open>handleWebhookEvent\<close> / \<open>verifyWebhookSignature\<close> (service), which exists in two copies:
  \<open>api/src/app/app.service.ts\<close> compares the signatures with \<open>===\<close>,
  \<open>server/nestjs-example/src/app/app.service.ts\<close> with \<open>timingSafeEqual\<close>.

  A \<open>string\<close> holds the UTF-8 bytes of the JavaScript string it stands for, so that
  \<open>Buffer.from(s)\<close> and \<open>hmac.update(s)\<close> read the characters as the bytes they are.
\<close>

type_synonym byte = "8 word"
type_synonym u32 = "32 word"

text \<open>
  A JavaScript number as far as this code meets one: \<open>parseInt\<close> returns \<open>NaN\<close> or an
  integer, and \<open>Math.floor(Date.now() / 1000)\<close> is an integer of absolute value at most
  8.64e12 (the range of \<open>Date\<close>). Every number that passes the freshness check is therefore
  an exactly represented integer below 1e21, which is where the double and the integer agree
  and where a template literal prints plain decimal digits.
\<close>

datatype jsnumber = NaN | Num int

fun js_minus :: "jsnumber \<Rightarrow> jsnumber \<Rightarrow> jsnumber" where
  "js_minus (Num a) (Num b) = Num (a - b)"
| "js_minus _ _ = NaN"

fun Math_abs :: "jsnumber \<Rightarrow> jsnumber" where
  "Math_abs (Num a) = Num \<bar>a\<bar>"
| "Math_abs NaN = NaN"

text \<open>\<open>x > y\<close> on numbers: every comparison with \<open>NaN\<close> is false.\<close>

fun js_greater :: "jsnumber \<Rightarrow> jsnumber \<Rightarrow> bool" where
  "js_greater (Num a) (Num b) = (a > b)"
| "js_greater _ _ = False"

definition digit_char :: "nat \<Rightarrow> char" where
  "digit_char d = char_of (48 + d)"

fun showNat :: "nat \<Rightarrow> string" where
  "showNat n = (if n < 10 then [digit_char n] else showNat (n div 10) @ [digit_char (n mod 10)])"

definition showInt :: "int \<Rightarrow> string" where
  "showInt i = (if i < 0 then CHR ''-'' # showNat (nat (- i)) else showNat (nat i))"

text \<open>\<open>`${x}`\<close> for a number \<open>x\<close>.\<close>

fun js_toString :: "jsnumber \<Rightarrow> string" where
  "js_toString NaN = ''NaN''"
| "js_toString (Num i) = showInt i"

subsection \<open>\<open>parseInt(string, 10)\<close>\<close>

text \<open>
  \<open>StrWhiteSpaceChar\<close> of ECMAScript (white space and line terminators) in UTF-8: one, two
  or three bytes.
\<close>

definition ws1 :: "nat \<Rightarrow> bool" where
  "ws1 a = (a = 9 \<or> a = 10 \<or> a = 11 \<or> a = 12 \<or> a = 13 \<or> a = 32)"

definition ws2 :: "nat \<Rightarrow> nat \<Rightarrow> bool" where
  "ws2 a b = (a = 0xC2 \<and> b = 0xA0)"

definition ws3 :: "nat \<Rightarrow> nat \<Rightarrow> nat \<Rightarrow> bool" where
  "ws3 a b c =
     (a = 0xE1 \<and> b = 0x9A \<and> c = 0x80 \<or>
      a = 0xE2 \<and> b = 0x80 \<and> (0x80 \<le> c \<and> c \<le> 0x8A \<or> c = 0xA8 \<or> c = 0xA9 \<or> c = 0xAF) \<or>
      a = 0xE2 \<and> b = 0x81 \<and> c = 0x9F \<or>
      a = 0xE3 \<and> b = 0x80 \<and> c = 0x80 \<or>
      a = 0xEF \<and> b = 0xBB \<and> c = 0xBF)"

text \<open>The number of bytes of a leading \<open>StrWhiteSpaceChar\<close>, or 0 when there is none.\<close>

fun StrWhiteSpaceChar :: "string \<Rightarrow> nat" where
  "StrWhiteSpaceChar (a # b # c # s) =
     (if ws1 (of_char a) then 1
      else if ws2 (of_char a) (of_char b) then 2
      else if ws3 (of_char a) (of_char b) (of_char c) then 3
      else 0)"
| "StrWhiteSpaceChar [a, b] =
     (if ws1 (of_char a) then 1 else if ws2 (of_char a) (of_char b) then 2 else 0)"
| "StrWhiteSpaceChar [a] = (if ws1 (of_char a) then 1 else 0)"
| "StrWhiteSpaceChar [] = 0"

function trimStart :: "string \<Rightarrow> string" where
  "trimStart s = (if StrWhiteSpaceChar s = 0 then s else trimStart (drop (StrWhiteSpaceChar s) s))"
  by pat_completeness auto
termination
proof (relation "measure length")
  show "wf (measure length)" by simp
next
  fix s :: string
  assume "StrWhiteSpaceChar s \<noteq> 0"
  moreover have "StrWhiteSpaceChar s \<le> length s"
    by (cases s rule: StrWhiteSpaceChar.cases) simp_all
  ultimately show "(drop (StrWhiteSpaceChar s) s, s) \<in> measure length" by simp
qed

definition isDigit :: "char \<Rightarrow> bool" where
  "isDigit c = (48 \<le> (of_char c :: nat) \<and> (of_char c :: nat) \<le> 57)"

definition digitsValue :: "string \<Rightarrow> int" where
  "digitsValue ds = foldl (\<lambda>acc c. 10 * acc + (int (of_char c) - 48)) 0 ds"

definition parseInt_string :: "string \<Rightarrow> jsnumber" where
  "parseInt_string inputString =
     (let S = trimStart inputString;
          sign = (if take 1 S = ''-'' then - 1 else 1);
          S' = (if take 1 S = ''-'' \<or> take 1 S = ''+'' then drop 1 S else S);
          Z = takeWhile isDigit S'
      in if Z = [] then NaN else Num (sign * digitsValue Z))"

text \<open>A header that was not sent is \<open>undefined\<close>, which \<open>parseInt\<close> reads as the text "undefined".\<close>

definition parseInt :: "string option \<Rightarrow> jsnumber" where
  "parseInt h = (case h of None \<Rightarrow> parseInt_string ''undefined'' | Some s \<Rightarrow> parseInt_string s)"

section \<open>HMAC-SHA256 (\<open>createHmac('sha256', secret)\<close> of Node's crypto module)\<close>

text \<open>
  The crypto module is a library of the runtime and not a file of the repository; the hash
  follows FIPS 180-4 and the MAC follows RFC 2104.
\<close>

text \<open>
  The integer part of the \<open>k\<close>-th root of \<open>n\<close>, for roots below \<open>2 ^ 40\<close>: the bits of
  the root are decided from the highest down.
\<close>

definition iroot :: "nat \<Rightarrow> nat \<Rightarrow> nat" where
  "iroot k n = fold (\<lambda>b r. if (r + 2 ^ b) ^ k \<le> n then r + 2 ^ b else r) (rev [0..<40]) 0"

definition primes64 :: "nat list" where
  "primes64 = take 64 (filter (\<lambda>p. \<forall>d \<in> set [2..<p]. \<not> d dvd p) [2..<400])"

text \<open>
  The round constants are the first 32 bits of the fractional parts of the cube roots of
  the first 64 primes, the initial hash value those of the square roots of the first 8.
\<close>

definition K256 :: "u32 list" where
  "K256 = map (\<lambda>p. of_nat (iroot 3 (p * 2 ^ 96))) primes64"

definition H256 :: "u32 list" where
  "H256 = map (\<lambda>p. of_nat (iroot 2 (p * 2 ^ 64))) (take 8 primes64)"

definition Ch :: "u32 \<Rightarrow> u32 \<Rightarrow> u32 \<Rightarrow> u32" where
  "Ch x y z = (x AND y) XOR (NOT x AND z)"

definition Maj :: "u32 \<Rightarrow> u32 \<Rightarrow> u32 \<Rightarrow> u32" where
  "Maj x y z = (x AND y) XOR (x AND z) XOR (y AND z)"

definition Sigma0 :: "u32 \<Rightarrow> u32" where
  "Sigma0 x = word_rotr 2 x XOR word_rotr 13 x XOR word_rotr 22 x"

definition Sigma1 :: "u32 \<Rightarrow> u32" where
  "Sigma1 x = word_rotr 6 x XOR word_rotr 11 x XOR word_rotr 25 x"

definition sigma0 :: "u32 \<Rightarrow> u32" where
  "sigma0 x = word_rotr 7 x XOR word_rotr 18 x XOR drop_bit 3 x"

definition sigma1 :: "u32 \<Rightarrow> u32" where
  "sigma1 x = word_rotr 17 x XOR word_rotr 19 x XOR drop_bit 10 x"

text \<open>The \<open>n\<close> low bytes of a word, most significant first.\<close>

definition be_bytes :: "nat \<Rightarrow> 'a::len word \<Rightarrow> byte list" where
  "be_bytes n w = map (\<lambda>i. ucast (drop_bit (8 * (n - 1 - i)) w)) [0..<n]"

definition be_word :: "byte list \<Rightarrow> u32" where
  "be_word bs = foldl (\<lambda>acc b. push_bit 8 acc OR ucast b) 0 bs"

definition sha256_pad :: "byte list \<Rightarrow> byte list" where
  "sha256_pad m =
     m @ [0x80] @ replicate ((64 - (length m + 9) mod 64) mod 64) 0
       @ be_bytes 8 (of_nat (8 * length m) :: 64 word)"

definition block_words :: "byte list \<Rightarrow> u32 list" where
  "block_words b = map (\<lambda>i. be_word (take 4 (drop (4 * i) b))) [0..<16]"

definition schedule :: "u32 list \<Rightarrow> u32 list" where
  "schedule w16 =
     fold (\<lambda>t w. w @ [sigma1 (w ! (t - 2)) + w ! (t - 7) + sigma0 (w ! (t - 15)) + w ! (t - 16)])
       [16..<64] w16"

definition round256 :: "u32 \<times> u32 \<Rightarrow> u32 list \<Rightarrow> u32 list" where
  "round256 kw s =
     (case s of [a, b, c, d, e, f, g, h] \<Rightarrow>
        (let t1 = h + Sigma1 e + Ch e f g + fst kw + snd kw;
             t2 = Sigma0 a + Maj a b c
         in [t1 + t2, a, b, c, d + t1, e, f, g])
      | _ \<Rightarrow> s)"

definition compress :: "u32 list \<Rightarrow> byte list \<Rightarrow> u32 list" where
  "compress hs b = map2 (+) hs (fold round256 (zip K256 (schedule (block_words b))) hs)"

definition sha256 :: "byte list \<Rightarrow> byte list" where
  "sha256 m =
     (let p = sha256_pad m;
          blocks = map (\<lambda>i. take 64 (drop (64 * i) p)) [0..<length p div 64]
      in concat (map (be_bytes 4) (foldl compress H256 blocks)))"

definition hmac_sha256 :: "byte list \<Rightarrow> byte list \<Rightarrow> byte list" where
  "hmac_sha256 key msg =
     (let k0 = (if length key > 64 then sha256 key else key);
          k = k0 @ replicate (64 - length k0) 0
      in sha256 (map (\<lambda>b. b XOR 0x5c) k @ sha256 (map (\<lambda>b. b XOR 0x36) k @ msg)))"

definition hex_digit :: "nat \<Rightarrow> char" where
  "hex_digit n = ''0123456789abcdef'' ! n"

text \<open>\<open>digest('hex')\<close>: two lowercase digits a byte.\<close>

definition hex :: "byte list \<Rightarrow> string" where
  "hex bs = concat (map (\<lambda>b. [hex_digit (unat b div 16), hex_digit (unat b mod 16)]) bs)"

text \<open>The bytes of a string, as \<open>Buffer.from(s)\<close> and \<open>hmac.update(s)\<close> take them.\<close>

definition utf8 :: "string \<Rightarrow> byte list" where
  "utf8 s = map (\<lambda>c. of_nat (of_char c)) s"

section \<open>The application service\<close>

subsection \<open>Data\<close>

text \<open>
  The body of a delivery, \<open>payload: any\<close>, as the receiver reads it: the text
  \<open>JSON.stringify(payload)\<close> returns for it (\<open>JSON\<close> is a builtin of the runtime) and the
  properties \<open>id\<close>, \<open>type\<close>, \<open>created_at\<close> and \<open>data\<close>, each \<open>None\<close> when the body
  does not have it (\<open>undefined\<close>). Of \<open>data\<close> the code reads \<open>intent_address\<close>, a string
  when present; its other properties are kept as pairs of a name and the JSON text of the value.
\<close>

record webhook_data =
  intent_address :: "string option"
  other_properties :: "(string \<times> string) list"

record payload =
  json :: string
  p_id :: "string option"
  p_type :: "string option"
  p_created_at :: "string option"
  p_data :: "webhook_data option"

text \<open>The object pushed on the log of an address.\<close>

record event =
  e_id :: "string option"
  e_type :: "string option"
  e_created_at :: "string option"
  e_data :: "webhook_data option"
  receivedAt :: string

datatype log_level = Log | Warn | Error

text \<open>
  The state of an \<open>AppService\<close>: the map \<open>webhookEvents\<close> and what its \<open>logger\<close> has
  written so far (level and arguments of each call).
\<close>

record app =
  webhookEvents :: "string \<rightharpoonup> event list"
  logger :: "(log_level \<times> string list) list"

text \<open>
  What a request reads from outside the service: the configured secret
  (\<open>configService.get('CHAINRAILS_WEBHOOK_SECRET')\<close>, \<open>None\<close> for \<open>undefined\<close>),
  \<open>Date.now()\<close> in milliseconds and \<open>new Date().toISOString()\<close>.
\<close>

record env =
  CHAINRAILS_WEBHOOK_SECRET :: "string option"
  Date_now :: int
  toISOString :: string

datatype error =
    UnauthorizedException string
  | TypeError string
  | RangeError string
  | ApiError string

datatype variant = Api | Server

subsection \<open>\<open>verifyWebhookSignature\<close>\<close>

text \<open>\<open>!webhookSecret\<close>: the secret is \<open>undefined\<close> or the empty string.\<close>

definition secret_missing :: "string option \<Rightarrow> bool" where
  "secret_missing webhookSecret = (case webhookSecret of None \<Rightarrow> True | Some s \<Rightarrow> s = [])"

text \<open>\<open>Math.floor(Date.now() / 1000)\<close>\<close>

definition now :: "env \<Rightarrow> jsnumber" where
  "now E = Num (Date_now E div 1000)"

definition MAX_TIMESTAMP_AGE :: int where
  "MAX_TIMESTAMP_AGE = 300"

text \<open>\<open>Math.abs(now - timestamp)\<close>\<close>

definition timeDifference :: "env \<Rightarrow> jsnumber \<Rightarrow> jsnumber" where
  "timeDifference E timestamp = Math_abs (js_minus (now E) timestamp)"

text \<open>
  \<open>`sha256=${hmac.digest('hex')}`\<close> after \<open>hmac.update(`${timestamp}.${JSON.stringify(payload)}`)\<close>
\<close>

definition computedSignature :: "string \<Rightarrow> payload \<Rightarrow> jsnumber \<Rightarrow> string" where
  "computedSignature webhookSecret payload timestamp =
     ''sha256='' @ hex (hmac_sha256 (utf8 webhookSecret)
                         (utf8 (js_toString timestamp @ ''.'' @ json payload)))"

text \<open>
  \<open>Buffer.from(x)\<close> for a header value: the bytes of a string, a \<open>TypeError\<close> for
  \<open>undefined\<close> (the header was not sent).
\<close>

definition TypeError_message :: string where
  "TypeError_message = ''The first argument must be of type string or an instance of Buffer, ArrayBuffer, or Array or an Array-like Object. Received undefined''"

definition Buffer_from :: "string option \<Rightarrow> error + byte list" where
  "Buffer_from x = (case x of None \<Rightarrow> Inl (TypeError TypeError_message) | Some s \<Rightarrow> Inr (utf8 s))"

text \<open>\<open>crypto.timingSafeEqual(a, b)\<close> throws when the lengths differ.\<close>

definition RangeError_message :: string where
  "RangeError_message = ''Input buffers must have the same byte length''"

definition timingSafeEqual :: "byte list \<Rightarrow> byte list \<Rightarrow> error + bool" where
  "timingSafeEqual a b =
     (if length a \<noteq> length b then Inl (RangeError RangeError_message) else Inr (a = b))"

fun error_message :: "error \<Rightarrow> string" where
  "error_message (UnauthorizedException m) = m"
| "error_message (TypeError m) = m"
| "error_message (RangeError m) = m"
| "error_message (ApiError m) = m"

text \<open>
  Both copies return the verdict; the second component is what the call writes to the logger.
\<close>

definition verifyWebhookSignature_api ::
  "env \<Rightarrow> payload \<Rightarrow> string option \<Rightarrow> jsnumber \<Rightarrow> bool \<times> (log_level \<times> string list) list" where
  "verifyWebhookSignature_api E payload signature timestamp =
     (case CHAINRAILS_WEBHOOK_SECRET E of
        None \<Rightarrow>
          (True, [(Warn, [''CHAINRAILS_WEBHOOK_SECRET not set. Skipping verification (OK for development, but not recommended).''])])
      | Some webhookSecret \<Rightarrow>
          if webhookSecret = [] then
            (True, [(Warn, [''CHAINRAILS_WEBHOOK_SECRET not set. Skipping verification (OK for development, but not recommended).''])])
          else if js_greater (Math_abs (js_minus (now E) timestamp)) (Num 300) then (False, [])
          else (Some (computedSignature webhookSecret payload timestamp) = signature, []))"

definition verifyWebhookSignature_server ::
  "env \<Rightarrow> payload \<Rightarrow> string option \<Rightarrow> jsnumber \<Rightarrow> bool \<times> (log_level \<times> string list) list" where
  "verifyWebhookSignature_server E payload receivedSignature timestamp =
     (case CHAINRAILS_WEBHOOK_SECRET E of
        None \<Rightarrow>
          (True, [(Warn, [''CHAINRAILS_WEBHOOK_SECRET not set. Skipping signature verification. This is OK for development but REQUIRED for production!''])])
      | Some webhookSecret \<Rightarrow>
          if webhookSecret = [] then
            (True, [(Warn, [''CHAINRAILS_WEBHOOK_SECRET not set. Skipping signature verification. This is OK for development but REQUIRED for production!''])])
          else if js_greater (timeDifference E timestamp) (Num MAX_TIMESTAMP_AGE) then
            (False, [(Warn, [''Webhook timestamp too old. Difference: ''
                              @ js_toString (timeDifference E timestamp) @ ''s (max: ''
                              @ showInt MAX_TIMESTAMP_AGE @ ''s)''])])
          else
            (let computed = computedSignature webhookSecret payload timestamp in
             case Buffer_from receivedSignature of
               Inl e \<Rightarrow> (False, [(Error, [''Error comparing webhook signatures:'', error_message e])])
             | Inr receivedBuffer \<Rightarrow>
                 (let computedBuffer = utf8 computed in
                  if length receivedBuffer \<noteq> length computedBuffer then (False, [])
                  else (case timingSafeEqual receivedBuffer computedBuffer of
                          Inl e \<Rightarrow> (False, [(Error, [''Error comparing webhook signatures:'', error_message e])])
                        | Inr same \<Rightarrow> (same, [])))))"

fun verifyWebhookSignature ::
  "variant \<Rightarrow> env \<Rightarrow> payload \<Rightarrow> string option \<Rightarrow> jsnumber \<Rightarrow> bool \<times> (log_level \<times> string list) list" where
  "verifyWebhookSignature Api = verifyWebhookSignature_api"
| "verifyWebhookSignature Server = verifyWebhookSignature_server"

declare verifyWebhookSignature.simps [simp del]

text \<open>The warning each copy writes when no secret is configured.\<close>

definition bypass_warning :: "variant \<Rightarrow> string" where
  "bypass_warning v =
     (case v of
        Api \<Rightarrow> ''CHAINRAILS_WEBHOOK_SECRET not set. Skipping verification (OK for development, but not recommended).''
      | Server \<Rightarrow> ''CHAINRAILS_WEBHOOK_SECRET not set. Skipping signature verification. This is OK for development but REQUIRED for production!'')"

subsection \<open>\<open>handleWebhookEvent\<close>\<close>

record webhook_result =
  received :: bool
  eventId :: "string option"
  eventType :: "string option"
  intentAddress :: "string option"

text \<open>\<open>payload.data?.intent_address\<close>\<close>

definition payload_intent_address :: "payload \<Rightarrow> string option" where
  "payload_intent_address payload = (case p_data payload of None \<Rightarrow> None | Some d \<Rightarrow> intent_address d)"

text \<open>\<open>this.webhookEvents.get(address) || []\<close>\<close>

definition get_events :: "(string \<rightharpoonup> event list) \<Rightarrow> string \<Rightarrow> event list" where
  "get_events m address = (case m address of None \<Rightarrow> [] | Some events \<Rightarrow> events)"

definition new_event :: "env \<Rightarrow> payload \<Rightarrow> event" where
  "new_event E payload =
     \<lparr>e_id = p_id payload, e_type = p_type payload, e_created_at = p_created_at payload,
      e_data = p_data payload, receivedAt = toISOString E\<rparr>"

text \<open>The \<open>if (intentAddress) { ... }\<close> block; the empty string is falsy as \<open>undefined\<close> is.\<close>

definition record_event ::
  "env \<Rightarrow> payload \<Rightarrow> (string \<rightharpoonup> event list) \<Rightarrow> (string \<rightharpoonup> event list)" where
  "record_event E payload m =
     (case payload_intent_address payload of
        None \<Rightarrow> m
      | Some address \<Rightarrow>
          if address = [] then m
          else m(address \<mapsto> get_events m address @ [new_event E payload]))"

definition handleWebhookEvent ::
  "variant \<Rightarrow> env \<Rightarrow> app \<Rightarrow> payload \<Rightarrow> string option \<Rightarrow> jsnumber \<Rightarrow> (error + webhook_result) \<times> app" where
  "handleWebhookEvent v E this payload signature timestamp =
     (case verifyWebhookSignature v E payload signature timestamp of
        (isValid, logged) \<Rightarrow>
          if \<not> isValid then
            (Inl (UnauthorizedException ''Invalid webhook signature''),
             this\<lparr>logger := logger this @ logged\<rparr>)
          else
            (Inr \<lparr>received = True, eventId = p_id payload, eventType = p_type payload,
                  intentAddress = payload_intent_address payload\<rparr>,
             this\<lparr>webhookEvents := record_event E payload (webhookEvents this),
                  logger := logger this @ logged\<rparr>))"

subsection \<open>The controller: \<open>POST /app/webhook\<close>\<close>

record webhook_response =
  r_received :: bool
  r_eventId :: "string option"
  r_eventType :: "string option"

definition handleWebhook ::
  "variant \<Rightarrow> env \<Rightarrow> app \<Rightarrow> payload \<Rightarrow> string option \<Rightarrow> string option \<Rightarrow> (error + webhook_response) \<times> app" where
  "handleWebhook v E this payload signature timestamp =
     (let timestampNumber = parseInt timestamp in
      case handleWebhookEvent v E this payload signature timestampNumber of
        (Inl e, this') \<Rightarrow> (Inl e, this')
      | (Inr result, this') \<Rightarrow>
          (Inr \<lparr>r_received = True, r_eventId = eventId result, r_eventType = eventType result\<rparr>, this'))"

subsection \<open>\<open>createTransfer\<close>\<close>

record transfer_params =
  sourceChain :: string
  destinationChain :: string
  amount :: string
  tokenIn :: string
  recipient :: string
  sender :: "string option"
  refundAddress :: "string option"
  metadata :: "(string \<times> string) list option"

text \<open>The intent the Chainrails API answers with, as far as \<open>createTransfer\<close> reads it.\<close>

record intent =
  i_id :: int
  i_intent_address :: string
  i_totalAmount :: string
  i_expires_at :: string

record funding_instructions =
  f_address :: string
  f_amount :: string
  f_network :: string
  f_deadline :: string

record transfer_result =
  t_intent :: intent
  fundingInstructions :: funding_instructions
  tracking :: "int \<times> string"

text \<open>
  The argument of \<open>intentsService.createIntent\<close>: the parameters with
  \<open>{...params.metadata, createdVia: 'complete-demo-app'}\<close> for metadata.
\<close>

definition createIntent_request :: "transfer_params \<Rightarrow> transfer_params" where
  "createIntent_request params =
     params\<lparr>metadata :=
       Some (AList.update ''createdVia'' ''complete-demo-app''
              (case metadata params of None \<Rightarrow> [] | Some md \<Rightarrow> md))\<rparr>"

text \<open>
  \<open>createIntent\<close> is the call to the external API (an HTTP request): it answers with an
  intent or throws, and \<open>createTransfer\<close> lets the exception pass.
\<close>

definition createTransfer ::
  "(transfer_params \<Rightarrow> error + intent) \<Rightarrow> app \<Rightarrow> transfer_params \<Rightarrow> (error + transfer_result) \<times> app" where
  "createTransfer createIntent this params =
     (case createIntent (createIntent_request params) of
        Inl e \<Rightarrow> (Inl e, this)
      | Inr intent \<Rightarrow>
          (Inr \<lparr>t_intent = intent,
                fundingInstructions =
                  \<lparr>f_address = i_intent_address intent, f_amount = i_totalAmount intent,
                   f_network = sourceChain params, f_deadline = i_expires_at intent\<rparr>,
                tracking = (i_id intent, i_intent_address intent)\<rparr>,
           this\<lparr>webhookEvents := (webhookEvents this)(i_intent_address intent \<mapsto> [])\<rparr>))"

section \<open>A delivery from the documentation\<close>

text \<open>
  The \<open>intent.funded\<close> event of the module's README, signed with the secret
  \<open>whsec_test\<close> and received at 2025-12-05T14:35:00.250Z (1764945300 in Unix seconds).
\<close>

definition ex_json :: string where
  \<open>ex_json = ''{"id":"evt_abc123","type":"intent.funded","created_at":"2025-12-05T14:35:00Z","data":{"intent_id":123,"intent_address":"0x1234","status":"FUNDED"}}''\<close>

definition ex_data :: webhook_data where
  \<open>ex_data = \<lparr>intent_address = Some ''0x1234'',
               other_properties = [(''intent_id'', ''123''), (''status'', ''"FUNDED"'')]\<rparr>\<close>

definition ex_payload :: payload where
  "ex_payload = \<lparr>json = ex_json, p_id = Some ''evt_abc123'', p_type = Some ''intent.funded'',
                  p_created_at = Some ''2025-12-05T14:35:00Z'', p_data = Some ex_data\<rparr>"

text \<open>The README's later event, which has no \<open>intent_address\<close>.\<close>

definition ex_payload_initiated :: payload where
  \<open>ex_payload_initiated =
     \<lparr>json = ''{"type":"intent.initiated","data":{"status":"INITIATED"}}'',
      p_id = None, p_type = Some ''intent.initiated'', p_created_at = None,
      p_data = Some \<lparr>intent_address = None, other_properties = [(''status'', ''"INITIATED"'')]\<rparr>\<rparr>\<close>

definition ex_env :: env where
  "ex_env = \<lparr>CHAINRAILS_WEBHOOK_SECRET = Some ''whsec_test'', Date_now = 1764945300250,
              toISOString = ''2025-12-05T14:35:00.250Z''\<rparr>"

definition ex_env_dev :: env where
  "ex_env_dev = \<lparr>CHAINRAILS_WEBHOOK_SECRET = None, Date_now = 1764945300250,
                  toISOString = ''2025-12-05T14:35:00.250Z''\<rparr>"

definition ex_app :: app where
  "ex_app = \<lparr>webhookEvents = Map.empty, logger = []\<rparr>"

definition ex_event :: event where
  "ex_event = \<lparr>e_id = Some ''evt_abc123'', e_type = Some ''intent.funded'',
                e_created_at = Some ''2025-12-05T14:35:00Z'', e_data = Some ex_data,
                receivedAt = ''2025-12-05T14:35:00.250Z''\<rparr>"

definition ex_intent :: intent where
  "ex_intent = \<lparr>i_id = 123, i_intent_address = ''0x1234'', i_totalAmount = ''10050000'',
                 i_expires_at = ''2025-12-05T15:35:00Z''\<rparr>"

definition ex_params :: transfer_params where
  "ex_params = \<lparr>sourceChain = ''BASE_TESTNET'', destinationChain = ''ARBITRUM_TESTNET'',
                 amount = ''10000000'', tokenIn = ''0x036CbD53842c5426634e7929541eC2318f3dCF7e'',
                 recipient = ''0xb79541Be080a59fdcE6C0b43219ba56c725eC65e'',
                 sender = Some ''0xb79541Be080a59fdcE6C0b43219ba56c725eC65e'',
                 refundAddress = Some ''0xb79541Be080a59fdcE6C0b43219ba56c725eC65e'',
                 metadata = None\<rparr>"

text \<open>An API that answers every request with the same intent.\<close>

definition ex_createIntent :: "transfer_params \<Rightarrow> error + intent" where
  "ex_createIntent request = Inr ex_intent"

text \<open>
  \<open>createTransfer\<close>, then the signed delivery of the event, then \<open>createTransfer\<close> again with
  the API answering with the same intent address.
\<close>

definition ex_created :: app where
  "ex_created = snd (createTransfer ex_createIntent ex_app ex_params)"

definition ex_funded :: app where
  "ex_funded =
     snd (handleWebhookEvent Api ex_env ex_created ex_payload
            (Some (computedSignature ''whsec_test'' ex_payload (Num 1764945300))) (Num 1764945300))"

definition ex_created_again :: app where
  "ex_created_again = snd (createTransfer ex_createIntent ex_funded ex_params)"

section \<open>Facts about the verification\<close>

lemma utf8_inj: "utf8 a = utf8 b \<Longrightarrow> a = b"
proof -
  have "inj (\<lambda>c::char. (of_nat (of_char c) :: byte))"
  proof (rule injI)
    fix x y :: char
    assume "(of_nat (of_char x) :: byte) = of_nat (of_char y)"
    then have "unat (of_nat (of_char x) :: byte) = unat (of_nat (of_char y) :: byte)"
      by simp
    then have "(of_char x :: nat) = of_char y"
      by (simp add: unat_of_nat)
    then show "x = y" by simp
  qed
  then show "utf8 a = utf8 b \<Longrightarrow> a = b"
    unfolding utf8_def by (simp add: inj_map_eq_map)
qed

lemma verify_no_secret:
  assumes "secret_missing (CHAINRAILS_WEBHOOK_SECRET E)"
  shows "verifyWebhookSignature v E payload signature timestamp = (True, [(Warn, [bypass_warning v])])"
  using assms
  by (cases v; simp add: verifyWebhookSignature.simps secret_missing_def verifyWebhookSignature_api_def
        verifyWebhookSignature_server_def bypass_warning_def split: option.splits)

lemma verify_stale:
  assumes "CHAINRAILS_WEBHOOK_SECRET E = Some secret" "secret \<noteq> []"
    and "\<bar>Date_now E div 1000 - t\<bar> > 300"
  shows "fst (verifyWebhookSignature v E payload signature (Num t)) = False"
  using assms
  by (cases v; simp add: verifyWebhookSignature.simps verifyWebhookSignature_api_def verifyWebhookSignature_server_def
        now_def timeDifference_def MAX_TIMESTAMP_AGE_def)

lemma verify_valid:
  assumes "CHAINRAILS_WEBHOOK_SECRET E = Some secret" "secret \<noteq> []"
    and "\<not> js_greater (Math_abs (js_minus (now E) timestamp)) (Num 300)"
    and "signature = Some (computedSignature secret payload timestamp)"
  shows "verifyWebhookSignature v E payload signature timestamp = (True, [])"
  using assms
  by (cases v; simp add: verifyWebhookSignature.simps verifyWebhookSignature_api_def verifyWebhookSignature_server_def
        timeDifference_def MAX_TIMESTAMP_AGE_def Buffer_from_def timingSafeEqual_def)

lemma verify_mismatch:
  assumes "CHAINRAILS_WEBHOOK_SECRET E = Some secret" "secret \<noteq> []"
    and "signature \<noteq> Some (computedSignature secret payload timestamp)"
  shows "fst (verifyWebhookSignature v E payload signature timestamp) = False"
proof (cases v)
  case Api
  with assms show ?thesis
    by (auto simp add: verifyWebhookSignature.simps verifyWebhookSignature_api_def)
next
  case Server
  show ?thesis
  proof (cases signature)
    case None
    with Server assms show ?thesis
      by (simp add: verifyWebhookSignature.simps verifyWebhookSignature_server_def Buffer_from_def)
  next
    case (Some s)
    with assms have "utf8 s \<noteq> utf8 (computedSignature secret payload timestamp)"
      using utf8_inj by blast
    with Server Some assms show ?thesis
      by (simp add: verifyWebhookSignature.simps verifyWebhookSignature_server_def Buffer_from_def
            timingSafeEqual_def Let_def)
  qed
qed

text \<open>
  The two copies differ in how they compare the signatures, not in the verdict: the server
  copy answers from the lengths alone when they differ, and calls \<open>timingSafeEqual\<close> on
  buffers of one length otherwise.
\<close>

lemma verify_outside_window:
  assumes "CHAINRAILS_WEBHOOK_SECRET E = Some secret" "secret \<noteq> []"
    and "js_greater (Math_abs (js_minus (now E) timestamp)) (Num 300)"
  shows "fst (verifyWebhookSignature v E payload signature timestamp) = False"
  using assms
  by (cases v; simp add: verifyWebhookSignature.simps verifyWebhookSignature_api_def verifyWebhookSignature_server_def
        timeDifference_def MAX_TIMESTAMP_AGE_def)

lemma verify_copies_agree:
  "fst (verifyWebhookSignature Api E payload signature timestamp) =
   fst (verifyWebhookSignature Server E payload signature timestamp)"
proof (cases "secret_missing (CHAINRAILS_WEBHOOK_SECRET E)")
  case True
  then show ?thesis by (simp add: verify_no_secret)
next
  case False
  then obtain secret where s: "CHAINRAILS_WEBHOOK_SECRET E = Some secret" "secret \<noteq> []"
    by (auto simp add: secret_missing_def split: option.splits)
  show ?thesis
  proof (cases "js_greater (Math_abs (js_minus (now E) timestamp)) (Num 300)")
    case True
    then show ?thesis by (simp add: verify_outside_window [OF s])
  next
    case fresh: False
    show ?thesis
    proof (cases "signature = Some (computedSignature secret payload timestamp)")
      case True
      then show ?thesis by (simp add: verify_valid [OF s fresh])
    next
      case False
      then show ?thesis by (simp add: verify_mismatch [OF s])
    qed
  qed
qed

lemma server_length_guard:
  assumes "CHAINRAILS_WEBHOOK_SECRET E = Some secret" "secret \<noteq> []"
    and "\<not> js_greater (Math_abs (js_minus (now E) timestamp)) (Num 300)"
    and "length (utf8 header) \<noteq> length (utf8 (computedSignature secret payload timestamp))"
  shows "verifyWebhookSignature_server E payload (Some header) timestamp = (False, [])"
  using assms
  by (simp add: verifyWebhookSignature_server_def timeDifference_def MAX_TIMESTAMP_AGE_def
        Buffer_from_def)

text \<open>The two outcomes of \<open>handleWebhookEvent\<close>, by the verdict of the verification.\<close>

lemma handle_rejected:
  assumes "\<not> fst (verifyWebhookSignature v E payload signature timestamp)"
  shows "handleWebhookEvent v E this payload signature timestamp =
           (Inl (UnauthorizedException ''Invalid webhook signature''),
            this\<lparr>logger := logger this @ snd (verifyWebhookSignature v E payload signature timestamp)\<rparr>)"
  using assms
  by (cases "verifyWebhookSignature v E payload signature timestamp")
     (simp add: handleWebhookEvent_def)

lemma handle_accepted:
  assumes "fst (verifyWebhookSignature v E payload signature timestamp)"
  shows "handleWebhookEvent v E this payload signature timestamp =
           (Inr \<lparr>received = True, eventId = p_id payload, eventType = p_type payload,
                 intentAddress = payload_intent_address payload\<rparr>,
            this\<lparr>webhookEvents := record_event E payload (webhookEvents this),
                 logger := logger this @ snd (verifyWebhookSignature v E payload signature timestamp)\<rparr>)"
  using assms
  by (cases "verifyWebhookSignature v E payload signature timestamp")
     (simp add: handleWebhookEvent_def)

lemma record_event_present:
  assumes "payload_intent_address payload = Some a" "a \<noteq> []"
  shows "record_event E payload m = m(a \<mapsto> get_events m a @ [new_event E payload])"
  using assms by (simp add: record_event_def)

lemma record_event_other:
  assumes "Some k \<noteq> payload_intent_address payload"
  shows "record_event E payload m k = m k"
  using assms by (auto simp add: record_event_def split: option.splits)


lemma ex_parse_missing: "parseInt None = NaN"
  by code_simp

lemma ex_parse_garbled: "parseInt (Some ''yesterday'') = NaN"
  by code_simp

lemma ex_new_event: "new_event ex_env ex_payload = ex_event"
  by (simp add: new_event_def ex_env_def ex_payload_def ex_event_def)

lemma ex_address: "payload_intent_address ex_payload = Some ''0x1234''"
  by (simp add: payload_intent_address_def ex_payload_def ex_data_def)

lemma ex_payload_fields:
  "p_id ex_payload = Some ''evt_abc123''" "p_type ex_payload = Some ''intent.funded''"
  by (simp_all add: ex_payload_def)

lemma ex_now: "Date_now ex_env div 1000 = 1764945300"
  by (simp add: ex_env_def)

section \<open>The claims\<close>



text \<open>
  C2, as claimed: creating a transfer for an address that already has a log leaves the
  recorded events in place. It does not: \<open>createTransfer\<close> stores the empty array under the
  intent's address with \<open>Map.set\<close>. In the example the API answers twice with the address
  \<open>0x1234\<close>; the event delivered in between is in the log before the second call and gone
  after it.
\<close>

theorem C2_counterexample:
  "webhookEvents ex_funded ''0x1234'' = Some [ex_event] \<and>
   webhookEvents ex_created_again ''0x1234'' = Some []"
proof -
  have created: "webhookEvents ex_created = [''0x1234'' \<mapsto> []]"
    by (simp add: ex_created_def createTransfer_def ex_createIntent_def ex_intent_def ex_app_def)
  have 1: "CHAINRAILS_WEBHOOK_SECRET ex_env = Some ''whsec_test''"
    by (simp add: ex_env_def)
  have 2: "''whsec_test'' \<noteq> []" by simp
  have fresh: "\<not> js_greater (Math_abs (js_minus (now ex_env) (Num 1764945300))) (Num 300)"
    by (simp add: now_def ex_now)
  have ok: "fst (verifyWebhookSignature Api ex_env ex_payload
                  (Some (computedSignature ''whsec_test'' ex_payload (Num 1764945300)))
                  (Num 1764945300))"
    by (simp add: verify_valid [OF 1 2 fresh refl])
  have 7: "''0x1234'' \<noteq> []" by simp
  have funded: "webhookEvents ex_funded ''0x1234'' = Some [ex_event]"
    unfolding ex_funded_def
    by (simp add: handle_accepted [OF ok] record_event_present [OF ex_address 7]
          created get_events_def ex_new_event)
  have again: "webhookEvents ex_created_again ''0x1234'' = Some []"
    by (simp add: ex_created_again_def createTransfer_def ex_createIntent_def ex_intent_def)
  from funded again show ?thesis by simp
qed

text \<open>
  C2, amended: when the intent is created, \<open>createTransfer\<close> sets the log of the intent's
  address to the empty sequence, whatever was recorded under that address before, and leaves
  the rest of the map as it was; a second call for the same intent with nothing in between
  changes nothing further.
\<close>

theorem C2_createTransfer_resets_log:
  assumes "createIntent (createIntent_request params) = Inr intent"
  shows "webhookEvents (snd (createTransfer createIntent this params)) =
           (webhookEvents this)(i_intent_address intent \<mapsto> [])
         \<and> snd (createTransfer createIntent (snd (createTransfer createIntent this params)) params) =
           snd (createTransfer createIntent this params)"
  using assms by (simp add: createTransfer_def)

theorem C2_witness:
  "webhookEvents (snd (createTransfer ex_createIntent ex_funded ex_params)) =
     (webhookEvents ex_funded)(''0x1234'' \<mapsto> [])
   \<and> snd (createTransfer ex_createIntent (snd (createTransfer ex_createIntent ex_funded ex_params))
          ex_params) =
     snd (createTransfer ex_createIntent ex_funded ex_params)"
proof -
  have "ex_createIntent (createIntent_request ex_params) = Inr ex_intent"
    by (simp add: ex_createIntent_def)
  from C2_createTransfer_resets_log [where createIntent = ex_createIntent and params = ex_params
        and intent = ex_intent and this = ex_funded, OF this]
  show ?thesis
    by (simp add: ex_intent_def)
qed

text \<open>
  C3. With a secret configured, a delivery whose timestamp is more than 300 seconds from the
  current time, in the past or in the future, is rejected whatever its signature; one at
  most 300 seconds away, 300 included, with the valid signature is accepted.
\<close>

theorem C3_replay_window:
  assumes "CHAINRAILS_WEBHOOK_SECRET E = Some secret" and "secret \<noteq> []"
  shows "(\<bar>Date_now E div 1000 - t\<bar> > 300 \<longrightarrow>
            fst (handleWebhookEvent v E this payload signature (Num t)) =
              Inl (UnauthorizedException ''Invalid webhook signature''))
         \<and> (\<bar>Date_now E div 1000 - t\<bar> \<le> 300 \<and>
              signature = Some (computedSignature secret payload (Num t)) \<longrightarrow>
            fst (handleWebhookEvent v E this payload signature (Num t)) =
              Inr \<lparr>received = True, eventId = p_id payload, eventType = p_type payload,
                   intentAddress = payload_intent_address payload\<rparr>)"
proof (intro conjI impI)
  assume "\<bar>Date_now E div 1000 - t\<bar> > 300"
  then have "\<not> fst (verifyWebhookSignature v E payload signature (Num t))"
    by (simp add: verify_stale [OF assms])
  then show "fst (handleWebhookEvent v E this payload signature (Num t)) =
               Inl (UnauthorizedException ''Invalid webhook signature'')"
    by (simp add: handle_rejected)
next
  assume a: "\<bar>Date_now E div 1000 - t\<bar> \<le> 300 \<and>
             signature = Some (computedSignature secret payload (Num t))"
  then have "\<not> js_greater (Math_abs (js_minus (now E) (Num t))) (Num 300)"
    by (simp add: now_def)
  with a have "fst (verifyWebhookSignature v E payload signature (Num t))"
    by (simp add: verify_valid [OF assms])
  then show "fst (handleWebhookEvent v E this payload signature (Num t)) =
               Inr \<lparr>received = True, eventId = p_id payload, eventType = p_type payload,
                    intentAddress = payload_intent_address payload\<rparr>"
    by (simp add: handle_accepted)
qed

text \<open>
  The example 301 seconds late and 301 seconds early (rejected even with the signature of
  that timestamp), and 299 and exactly 300 seconds late (accepted).
\<close>

theorem C3_witness:
  "fst (handleWebhookEvent Server ex_env ex_app ex_payload
          (Some (computedSignature ''whsec_test'' ex_payload (Num 1764944999))) (Num 1764944999)) =
     Inl (UnauthorizedException ''Invalid webhook signature'')
   \<and> fst (handleWebhookEvent Server ex_env ex_app ex_payload
          (Some (computedSignature ''whsec_test'' ex_payload (Num 1764945601))) (Num 1764945601)) =
     Inl (UnauthorizedException ''Invalid webhook signature'')
   \<and> fst (handleWebhookEvent Server ex_env ex_app ex_payload
          (Some (computedSignature ''whsec_test'' ex_payload (Num 1764945001))) (Num 1764945001)) =
     Inr \<lparr>received = True, eventId = Some ''evt_abc123'', eventType = Some ''intent.funded'',
          intentAddress = Some ''0x1234''\<rparr>
   \<and> fst (handleWebhookEvent Server ex_env ex_app ex_payload
          (Some (computedSignature ''whsec_test'' ex_payload (Num 1764945000))) (Num 1764945000)) =
     Inr \<lparr>received = True, eventId = Some ''evt_abc123'', eventType = Some ''intent.funded'',
          intentAddress = Some ''0x1234''\<rparr>"
proof -
  have 1: "CHAINRAILS_WEBHOOK_SECRET ex_env = Some ''whsec_test''"
    by (simp add: ex_env_def)
  have 2: "''whsec_test'' \<noteq> []" by simp
  note w = C3_replay_window [OF 1 2, where v = Server and this = ex_app and payload = ex_payload]
  show ?thesis
    using w [of 1764944999 "Some (computedSignature ''whsec_test'' ex_payload (Num 1764944999))"]
          w [of 1764945601 "Some (computedSignature ''whsec_test'' ex_payload (Num 1764945601))"]
          w [of 1764945001 "Some (computedSignature ''whsec_test'' ex_payload (Num 1764945001))"]
          w [of 1764945000 "Some (computedSignature ''whsec_test'' ex_payload (Num 1764945000))"]
    by (simp add: ex_now ex_payload_fields ex_address)
qed

text \<open>
  C5, as claimed: with a secret configured, a delivery whose timestamp header is missing or
  has no integer in it is rejected for every signature header. It is not: \<open>parseInt\<close> gives
  \<open>NaN\<close>, the comparison \<open>Math.abs(now - NaN) > 300\<close> is false, and the signature is computed
  over the text \<open>NaN\<close>, a dot and the serialized payload. The example, sent without a
  timestamp header and with that signature, is accepted and recorded.
\<close>

theorem C5_counterexample:
  "handleWebhook Api ex_env ex_app ex_payload
     (Some (computedSignature ''whsec_test'' ex_payload NaN)) None =
     (Inr \<lparr>r_received = True, r_eventId = Some ''evt_abc123'', r_eventType = Some ''intent.funded''\<rparr>,
      ex_app\<lparr>webhookEvents := [''0x1234'' \<mapsto> [ex_event]]\<rparr>)"
proof -
  have 1: "CHAINRAILS_WEBHOOK_SECRET ex_env = Some ''whsec_test''"
    by (simp add: ex_env_def)
  have 2: "''whsec_test'' \<noteq> []" by simp
  have fresh: "\<not> js_greater (Math_abs (js_minus (now ex_env) NaN)) (Num 300)"
    by (simp add: now_def)
  have ok: "verifyWebhookSignature Api ex_env ex_payload
              (Some (computedSignature ''whsec_test'' ex_payload NaN)) NaN = (True, [])"
    by (rule verify_valid [OF 1 2 fresh refl])
  have 7: "''0x1234'' \<noteq> []" by simp
  have "handleWebhookEvent Api ex_env ex_app ex_payload
          (Some (computedSignature ''whsec_test'' ex_payload NaN)) NaN =
        (Inr \<lparr>received = True, eventId = Some ''evt_abc123'', eventType = Some ''intent.funded'',
              intentAddress = Some ''0x1234''\<rparr>,
         ex_app\<lparr>webhookEvents := [''0x1234'' \<mapsto> [ex_event]]\<rparr>)"
    using handle_accepted [of Api ex_env ex_payload
            "Some (computedSignature ''whsec_test'' ex_payload NaN)" NaN ex_app]
    by (simp add: ok record_event_present [OF ex_address 7] ex_new_event ex_payload_fields
          ex_address ex_app_def get_events_def)
  then show ?thesis
    by (simp add: handleWebhook_def ex_parse_missing)
qed

text \<open>
  C5, amended: with a secret configured, a delivery whose timestamp header is missing or has
  no integer in it (\<open>parseInt\<close> gives \<open>NaN\<close>) is rejected as Unauthorized, and the map of
  events is left as it was, for every payload and every signature header other than
  \<open>sha256=\<close> followed by the hex HMAC-SHA256 of \<open>NaN.\<close> and the serialized payload.
\<close>

theorem C5_unparseable_timestamp:
  assumes "CHAINRAILS_WEBHOOK_SECRET E = Some secret" and "secret \<noteq> []"
    and "parseInt timestampHeader = NaN"
    and "signatureHeader \<noteq> Some (computedSignature secret payload NaN)"
  shows "fst (handleWebhook v E this payload signatureHeader timestampHeader) =
           Inl (UnauthorizedException ''Invalid webhook signature'')
         \<and> webhookEvents (snd (handleWebhook v E this payload signatureHeader timestampHeader)) =
           webhookEvents this"
proof -
  have "\<not> fst (verifyWebhookSignature v E payload signatureHeader NaN)"
    by (simp add: verify_mismatch [OF assms(1) assms(2) assms(4)])
  then show ?thesis
    by (simp add: handleWebhook_def assms(3) handle_rejected)
qed

theorem C5_witness:
  "fst (handleWebhook Server ex_env ex_app ex_payload (Some ''forged'') (Some ''yesterday'')) =
     Inl (UnauthorizedException ''Invalid webhook signature'')
   \<and> webhookEvents (snd (handleWebhook Server ex_env ex_app ex_payload (Some ''forged'')
                           (Some ''yesterday''))) =
     webhookEvents ex_app"
proof -
  have 1: "CHAINRAILS_WEBHOOK_SECRET ex_env = Some ''whsec_test''"
    by (simp add: ex_env_def)
  have 2: "''whsec_test'' \<noteq> []" by simp
  have 4: "Some ''forged'' \<noteq> Some (computedSignature ''whsec_test'' ex_payload NaN)"
    by (simp add: computedSignature_def)
  show ?thesis
    by (rule C5_unparseable_timestamp [OF 1 2 ex_parse_garbled 4])
qed

text \<open>
  C6. When the secret is absent or empty, \<open>handleWebhookEvent\<close> accepts the delivery
  whatever the signature header and the timestamp are, writes one warning to the logger in
  that call, and records the event under the payload's address when it has one.
\<close>

theorem C6_no_secret_bypass:
  assumes "CHAINRAILS_WEBHOOK_SECRET E = None \<or> CHAINRAILS_WEBHOOK_SECRET E = Some []"
  shows "handleWebhookEvent v E this payload signature timestamp =
           (Inr \<lparr>received = True, eventId = p_id payload, eventType = p_type payload,
                 intentAddress = payload_intent_address payload\<rparr>,
            this\<lparr>webhookEvents := record_event E payload (webhookEvents this),
                 logger := logger this @ [(Warn, [bypass_warning v])]\<rparr>)
         \<and> (\<forall>a. payload_intent_address payload = Some a \<and> a \<noteq> [] \<longrightarrow>
                record_event E payload (webhookEvents this) =
                  (webhookEvents this)(a \<mapsto> get_events (webhookEvents this) a @ [new_event E payload]))"
proof -
  from assms have "secret_missing (CHAINRAILS_WEBHOOK_SECRET E)"
    by (auto simp add: secret_missing_def)
  then have v: "verifyWebhookSignature v E payload signature timestamp =
                  (True, [(Warn, [bypass_warning v])])"
    by (rule verify_no_secret)
  then have "fst (verifyWebhookSignature v E payload signature timestamp)" by simp
  from handle_accepted [OF this] v show ?thesis
    by (simp add: record_event_present)
qed

text \<open>
  The example without a secret: a forged signature and a timestamp of 1970 are accepted,
  the warning is written and the event is recorded.
\<close>

theorem C6_witness:
  "handleWebhookEvent Api ex_env_dev ex_app ex_payload (Some ''forged'') (Num 0) =
     (Inr \<lparr>received = True, eventId = Some ''evt_abc123'', eventType = Some ''intent.funded'',
           intentAddress = Some ''0x1234''\<rparr>,
      \<lparr>webhookEvents = [''0x1234'' \<mapsto> [ex_event]],
       logger = [(Warn, [''CHAINRAILS_WEBHOOK_SECRET not set. Skipping verification (OK for development, but not recommended).''])]\<rparr>)"
proof -
  have 1: "CHAINRAILS_WEBHOOK_SECRET ex_env_dev = None \<or> CHAINRAILS_WEBHOOK_SECRET ex_env_dev = Some []"
    by (simp add: ex_env_dev_def)
  have e: "new_event ex_env_dev ex_payload = ex_event"
    by (simp add: new_event_def ex_env_dev_def ex_payload_def ex_event_def)
  have 7: "''0x1234'' \<noteq> []" by simp
  from C6_no_secret_bypass [OF 1, of Api ex_app ex_payload "Some ''forged''" "Num 0"]
  show ?thesis
    by (simp add: ex_address ex_payload_fields e ex_app_def get_events_def bypass_warning_def)
qed





text \<open>
  C9. Recording does not look at the event id: when the same payload, carrying a non-empty
  \<open>intent_address\<close>, is delivered twice and passes the verification both times, the log of
  that address ends with two entries, one for each call, with the same id.
\<close>

theorem C9_redelivery_recorded_twice:
  assumes "fst (verifyWebhookSignature v E1 payload signature1 timestamp1)"
    and "fst (verifyWebhookSignature v E2 payload signature2 timestamp2)"
    and "payload_intent_address payload = Some a" and "a \<noteq> []"
  shows "get_events
           (webhookEvents
             (snd (handleWebhookEvent v E2
                     (snd (handleWebhookEvent v E1 this payload signature1 timestamp1))
                     payload signature2 timestamp2))) a =
           get_events (webhookEvents this) a @ [new_event E1 payload, new_event E2 payload]
         \<and> e_id (new_event E1 payload) = p_id payload
         \<and> e_id (new_event E2 payload) = p_id payload"
  by (simp add: handle_accepted [OF assms(1)] handle_accepted [OF assms(2)]
        record_event_present [OF assms(3) assms(4)] get_events_def new_event_def)

theorem C9_witness:
  "get_events
     (webhookEvents
       (snd (handleWebhookEvent Server ex_env
               (snd (handleWebhookEvent Server ex_env ex_app ex_payload
                       (Some (computedSignature ''whsec_test'' ex_payload (Num 1764945300)))
                       (Num 1764945300)))
               ex_payload
               (Some (computedSignature ''whsec_test'' ex_payload (Num 1764945300)))
               (Num 1764945300)))) ''0x1234'' =
     [ex_event, ex_event]"
proof -
  have 1: "CHAINRAILS_WEBHOOK_SECRET ex_env = Some ''whsec_test''"
    by (simp add: ex_env_def)
  have 2: "''whsec_test'' \<noteq> []" by simp
  have fresh: "\<not> js_greater (Math_abs (js_minus (now ex_env) (Num 1764945300))) (Num 300)"
    by (simp add: now_def ex_now)
  have ok: "fst (verifyWebhookSignature Server ex_env ex_payload
                  (Some (computedSignature ''whsec_test'' ex_payload (Num 1764945300)))
                  (Num 1764945300))"
    by (simp add: verify_valid [OF 1 2 fresh refl])
  have 7: "''0x1234'' \<noteq> []" by simp
  from C9_redelivery_recorded_twice [OF ok ok ex_address 7, of ex_app] show ?thesis
    by (simp add: ex_new_event ex_app_def get_events_def)
qed

text \<open>
  C10. A call of \<open>handleWebhookEvent\<close>, accepted or rejected, leaves the log of every address
  other than the payload's \<open>data.intent_address\<close> as it was, and a call of \<open>createTransfer\<close>
  leaves the log of every address other than the created intent's as it was (the whole map
  when the API call fails).
\<close>

theorem C10_other_addresses_unchanged:
  "(\<forall>k. Some k \<noteq> payload_intent_address payload \<longrightarrow>
        webhookEvents (snd (handleWebhookEvent v E this payload signature timestamp)) k =
          webhookEvents this k)
   \<and> (case createIntent (createIntent_request params) of
         Inl e \<Rightarrow> webhookEvents (snd (createTransfer createIntent this params)) = webhookEvents this
       | Inr intent \<Rightarrow>
           \<forall>k. k \<noteq> i_intent_address intent \<longrightarrow>
               webhookEvents (snd (createTransfer createIntent this params)) k =
                 webhookEvents this k)"
proof (intro conjI allI impI)
  fix k
  assume other: "Some k \<noteq> payload_intent_address payload"
  show "webhookEvents (snd (handleWebhookEvent v E this payload signature timestamp)) k =
          webhookEvents this k"
  proof (cases "fst (verifyWebhookSignature v E payload signature timestamp)")
    case True
    then show ?thesis
      by (simp add: handle_accepted record_event_other [OF other])
  next
    case False
    then show ?thesis
      by (simp add: handle_rejected)
  qed
next
  show "case createIntent (createIntent_request params) of
          Inl e \<Rightarrow> webhookEvents (snd (createTransfer createIntent this params)) = webhookEvents this
        | Inr intent \<Rightarrow>
            \<forall>k. k \<noteq> i_intent_address intent \<longrightarrow>
                webhookEvents (snd (createTransfer createIntent this params)) k =
                  webhookEvents this k"
    by (simp add: createTransfer_def split: sum.splits)
qed

text \<open>
  In the example the log of \<open>0x1234\<close> is untouched by the event without an address and by a
  transfer created for another intent, and the log of \<open>0x9999\<close> by the event for \<open>0x1234\<close>.
\<close>

theorem C10_witness:
  "webhookEvents (snd (handleWebhookEvent Api ex_env_dev ex_funded ex_payload_initiated None NaN))
     ''0x1234'' = webhookEvents ex_funded ''0x1234''
   \<and> webhookEvents (snd (handleWebhookEvent Api ex_env_dev ex_funded ex_payload None NaN))
     ''0x9999'' = webhookEvents ex_funded ''0x9999''
   \<and> webhookEvents (snd (createTransfer (\<lambda>request. Inr (ex_intent\<lparr>i_intent_address := ''0x9999''\<rparr>))
                           ex_funded ex_params))
     ''0x1234'' = webhookEvents ex_funded ''0x1234''"
proof -
  have none: "payload_intent_address ex_payload_initiated = None"
    by (simp add: payload_intent_address_def ex_payload_initiated_def)
  show ?thesis
    using C10_other_addresses_unchanged [where payload = ex_payload_initiated and v = Api
            and E = ex_env_dev and this = ex_funded and signature = None and timestamp = NaN
            and createIntent = "\<lambda>request. Inr (ex_intent\<lparr>i_intent_address := ''0x9999''\<rparr>)"
            and params = ex_params]
          C10_other_addresses_unchanged [where payload = ex_payload and v = Api
            and E = ex_env_dev and this = ex_funded and signature = None and timestamp = NaN
            and createIntent = "\<lambda>request. Inr (ex_intent\<lparr>i_intent_address := ''0x9999''\<rparr>)"
            and params = ex_params]
    by (simp add: none ex_address)
qed

end
